theory Spec2Isabelle
  imports Complex_Main
begin

section \<open>Status registry (constants/theme.ts)\<close>

text \<open>
  The three fields every entry of \<open>ORDER_STATUS_CONFIG\<close> carries. The colour constants are
  the entries of the exported \<open>colors\<close> object that the registry refers to.
\<close>

record status_config =
  label :: string
  color :: string
  bgColor :: string

definition colors_pending :: string where "colors_pending = ''#F59E0B''"
definition colors_paymentPending :: string where "colors_paymentPending = ''#F97316''"
definition colors_paid :: string where "colors_paid = ''#10B981''"
definition colors_confirmed :: string where "colors_confirmed = ''#3B82F6''"
definition colors_processing :: string where "colors_processing = ''#8B5CF6''"
definition colors_shipped :: string where "colors_shipped = ''#6366F1''"
definition colors_delivered :: string where "colors_delivered = ''#059669''"
definition colors_cancelled :: string where "colors_cancelled = ''#EF4444''"
definition colors_textMuted :: string where "colors_textMuted = ''#64748B''"
definition colors_surface :: string where "colors_surface = ''#1E293B''"

text \<open>The own properties of the object literal \<open>ORDER_STATUS_CONFIG\<close>, in source order.\<close>

definition ORDER_STATUS_CONFIG :: "(string \<times> status_config) list" where
  "ORDER_STATUS_CONFIG =
    [(''pending'',
        \<lparr>label = ''Pending'', color = colors_pending, bgColor = ''rgba(245, 158, 11, 0.15)''\<rparr>),
     (''payment_pending'',
        \<lparr>label = ''Payment Pending'', color = colors_paymentPending,
         bgColor = ''rgba(249, 115, 22, 0.15)''\<rparr>),
     (''paid'',
        \<lparr>label = ''Paid'', color = colors_paid, bgColor = ''rgba(16, 185, 129, 0.15)''\<rparr>),
     (''confirmed'',
        \<lparr>label = ''Confirmed'', color = colors_confirmed, bgColor = ''rgba(59, 130, 246, 0.15)''\<rparr>),
     (''processing'',
        \<lparr>label = ''Processing'', color = colors_processing,
         bgColor = ''rgba(139, 92, 246, 0.15)''\<rparr>),
     (''shipped'',
        \<lparr>label = ''Shipped'', color = colors_shipped, bgColor = ''rgba(99, 102, 241, 0.15)''\<rparr>),
     (''delivered'',
        \<lparr>label = ''Delivered'', color = colors_delivered, bgColor = ''rgba(5, 150, 105, 0.15)''\<rparr>),
     (''cancelled'',
        \<lparr>label = ''Cancelled'', color = colors_cancelled, bgColor = ''rgba(239, 68, 68, 0.15)''\<rparr>)]"

text \<open>
  \<open>ORDER_STATUS_CONFIG\<close> is an ordinary object literal, so the computed member access
  \<open>ORDER_STATUS_CONFIG[status]\<close> consults the object's own properties first and then its
  prototype, \<open>Object.prototype\<close>. These are the property names \<open>Object.prototype\<close> defines:
  the seven of the language standard and the five legacy accessors. Each of them is a
  function (or, for \<open>__proto__\<close>, an object): a truthy value without a \<open>label\<close>, \<open>color\<close> or
  \<open>bgColor\<close> property.
\<close>

definition Object_prototype_keys :: "string list" where
  "Object_prototype_keys =
    [''constructor'', ''hasOwnProperty'', ''isPrototypeOf'', ''propertyIsEnumerable'',
     ''toLocaleString'', ''toString'', ''valueOf'',
     ''__proto__'', ''__defineGetter__'', ''__defineSetter__'',
     ''__lookupGetter__'', ''__lookupSetter__'']"

text \<open>
  What a member access on the registry evaluates to: one of the configuration objects, or
  the member of that name inherited from \<open>Object.prototype\<close>. \<open>None\<close> is \<open>undefined\<close>.
\<close>

datatype registry_value = Config status_config | Inherited string

definition registry_get :: "string \<Rightarrow> registry_value option" where
  "registry_get status =
    (case map_of ORDER_STATUS_CONFIG status of
       Some c \<Rightarrow> Some (Config c)
     | None \<Rightarrow> if status \<in> set Object_prototype_keys then Some (Inherited status) else None)"

text \<open>
  \<open>getStatusConfig = (status) => ORDER_STATUS_CONFIG[status] || {label: status, ...}\<close>.
  Objects and functions are truthy, so \<open>||\<close> takes its right operand exactly when the member
  access gave \<open>undefined\<close>.
\<close>

definition getStatusConfig :: "string \<Rightarrow> registry_value" where
  "getStatusConfig status =
    (case registry_get status of
       Some v \<Rightarrow> v
     | None \<Rightarrow> Config \<lparr>label = status, color = colors_textMuted, bgColor = colors_surface\<rparr>)"

text \<open>Reading \<open>.label\<close> and \<open>.color\<close> off the result; \<open>None\<close> is \<open>undefined\<close>.\<close>

fun label_of :: "registry_value \<Rightarrow> string option" where
  "label_of (Config c) = Some (label c)"
| "label_of (Inherited k) = None"

fun color_of :: "registry_value \<Rightarrow> string option" where
  "color_of (Config c) = Some (color c)"
| "color_of (Inherited k) = None"

text \<open>The eight status codes the registry defines.\<close>

definition known_codes :: "string list" where
  "known_codes = map fst ORDER_STATUS_CONFIG"


section \<open>Transition resolver (app/order/[id].tsx)\<close>

definition STATUS_FLOW :: "string list" where
  "STATUS_FLOW =
    [''pending'', ''payment_pending'', ''paid'', ''confirmed'', ''processing'', ''shipped'',
     ''delivered'']"

text \<open>\<open>Array.prototype.indexOf\<close>: the first index holding the element, \<open>-1\<close> when there is none.\<close>

fun indexOf_from :: "'a list \<Rightarrow> 'a \<Rightarrow> int \<Rightarrow> int" where
  "indexOf_from [] x i = -1"
| "indexOf_from (y # ys) x i = (if y = x then i else indexOf_from ys x (i + 1))"

definition indexOf :: "'a list \<Rightarrow> 'a \<Rightarrow> int" where
  "indexOf xs x = indexOf_from xs x 0"

text \<open>\<open>getNextStatus\<close>; \<open>None\<close> is the \<open>null\<close> the source returns.\<close>

definition getNextStatus :: "string \<Rightarrow> string option" where
  "getNextStatus currentStatus =
    (let currentIndex = indexOf STATUS_FLOW currentStatus in
     if currentIndex = -1 \<or> currentIndex \<ge> int (length STATUS_FLOW) - 1 then None
     else if currentStatus = ''pending'' then Some ''confirmed''
     else if currentStatus = ''paid'' then Some ''confirmed''
     else Some (STATUS_FLOW ! nat (currentIndex + 1)))"

text \<open>\<open>canCancel = !['cancelled', 'delivered', 'shipped'].includes(order.status)\<close>.\<close>

definition canCancel :: "string \<Rightarrow> bool" where
  "canCancel status = (status \<notin> set [''cancelled'', ''delivered'', ''shipped''])"

text \<open>
  The action bar of the order detail screen. Each control carries its \<open>disabled\<close> flag;
  the advance control also carries the status it will request. The bar is rendered only when
  the status is neither \<open>cancelled\<close> nor \<open>delivered\<close>; inside it the cancel control is guarded
  by \<open>canCancel\<close> and the advance control by the truthiness of \<open>nextStatus\<close> (\<open>null\<close> and the
  empty string are falsy).
\<close>

datatype control = CancelButton bool | AdvanceButton string bool

definition actionBar :: "string \<Rightarrow> bool \<Rightarrow> control list" where
  "actionBar status isUpdating =
    (let nextStatus = getNextStatus status in
     if status \<noteq> ''cancelled'' \<and> status \<noteq> ''delivered'' then
       (if canCancel status then [CancelButton isUpdating] else []) @
       (case nextStatus of
          None \<Rightarrow> []
        | Some n \<Rightarrow> if n \<noteq> [] then [AdvanceButton n isUpdating] else [])
     else [])"

fun is_cancel :: "control \<Rightarrow> bool" where
  "is_cancel (CancelButton d) = True"
| "is_cancel (AdvanceButton n d) = False"

fun advance_target :: "control \<Rightarrow> string option" where
  "advance_target (CancelButton d) = None"
| "advance_target (AdvanceButton n d) = Some n"

text \<open>Whether the rendered bar holds a cancel control, and the targets of its advance controls.\<close>

definition cancelOffered :: "string \<Rightarrow> bool \<Rightarrow> bool" where
  "cancelOffered status isUpdating = list_ex is_cancel (actionBar status isUpdating)"

definition advanceOffered :: "string \<Rightarrow> bool \<Rightarrow> string list" where
  "advanceOffered status isUpdating = List.map_filter advance_target (actionBar status isUpdating)"


section \<open>Values that cross the wire\<close>

text \<open>
  The screens hold server payloads as untyped values (\<open>any\<close>), so the model keeps them as
  JavaScript values: what \<open>JSON.parse\<close> can produce, and \<open>undefined\<close>. An object is the list
  of its own properties.
\<close>

datatype jsval =
    JUndefined
  | JNull
  | JBool bool
  | JNum real
  | JStr string
  | JArr "jsval list"
  | JObj "(string \<times> jsval) list"

text \<open>Truthiness, as \<open>||\<close>, \<open>&&\<close>, \<open>!!\<close> and \<open>if\<close> test it.\<close>

fun truthy :: "jsval \<Rightarrow> bool" where
  "truthy JUndefined = False"
| "truthy JNull = False"
| "truthy (JBool b) = b"
| "truthy (JNum x) = (x \<noteq> 0)"
| "truthy (JStr s) = (s \<noteq> [])"
| "truthy (JArr xs) = True"
| "truthy (JObj fs) = True"

fun isArray :: "jsval \<Rightarrow> bool" where
  "isArray (JArr xs) = True"
| "isArray v = False"

datatype js_error = TypeError | AxiosError "http_response option"
and http_response = Response (status: int) (data: jsval)

text \<open>
  Member access \<open>v.k\<close> for the property names the screens read off payloads (\<open>orders\<close>,
  \<open>detail\<close>), which no built-in prototype defines: on \<open>null\<close> and \<open>undefined\<close> it throws a
  \<open>TypeError\<close>, on an object it gives the own property or \<open>undefined\<close>, on every other value
  \<open>undefined\<close>. \<open>v?.k\<close> gives \<open>undefined\<close> instead of throwing.
\<close>

fun member :: "jsval \<Rightarrow> string \<Rightarrow> js_error + jsval" where
  "member JUndefined k = Inl TypeError"
| "member JNull k = Inl TypeError"
| "member (JObj fs) k = Inr (case map_of fs k of None \<Rightarrow> JUndefined | Some v \<Rightarrow> v)"
| "member v k = Inr JUndefined"

definition opt_member :: "jsval \<Rightarrow> string \<Rightarrow> jsval" where
  "opt_member v k = (case member v k of Inl e \<Rightarrow> JUndefined | Inr x \<Rightarrow> x)"

text \<open>\<open>error.response?.status\<close> and \<open>error.response?.data?.detail\<close> of a caught value.\<close>

fun response_of :: "js_error \<Rightarrow> http_response option" where
  "response_of TypeError = None"
| "response_of (AxiosError r) = r"

definition error_status :: "js_error \<Rightarrow> int option" where
  "error_status err = map_option status (response_of err)"

definition error_detail :: "js_error \<Rightarrow> jsval" where
  "error_detail err =
    (case response_of err of None \<Rightarrow> JUndefined | Some r \<Rightarrow> opt_member (data r) ''detail'')"


section \<open>Transport (services/api.ts)\<close>

datatype http_method = GET | POST | PUT | PATCH | DELETE

text \<open>
  A dispatched request: HTTP verb, path below the base URL, query parameters, body, and the
  \<open>Authorization\<close> header the request interceptor may have set.
\<close>

record request =
  req_method :: http_method
  url :: string
  params :: "(string \<times> jsval) list"
  body :: "(string \<times> jsval) list"
  authorization :: "string option"

text \<open>What the network does with a request: it answers, or it does not (timeout, no route).\<close>

datatype outcome = Reply http_response | NoReply

record alert =
  title :: string
  message :: jsval

text \<open>
  The state outside a screen: the platform and its two key-value stores, the answers the
  network will give to the requests still to come (in order of dispatch), the requests
  dispatched so far and the notices shown so far (oldest first), and the session state of
  \<open>AuthProvider\<close>.
\<close>

record env =
  platformOS :: string
  asyncStorage :: "string \<rightharpoonup> string"
  secureStore :: "string \<rightharpoonup> string"
  network :: "outcome list"
  sent :: "request list"
  alerts :: "alert list"
  user :: jsval
  authLoading :: bool

definition TOKEN_KEY :: string where
  "TOKEN_KEY = ''auth_token''"

definition getAuthToken :: "env \<Rightarrow> string option" where
  "getAuthToken e =
    (if platformOS e = ''web'' then asyncStorage e TOKEN_KEY else secureStore e TOKEN_KEY)"

definition setAuthToken :: "string \<Rightarrow> env \<Rightarrow> env" where
  "setAuthToken token e =
    (if platformOS e = ''web'' then e\<lparr>asyncStorage := (asyncStorage e)(TOKEN_KEY \<mapsto> token)\<rparr>
     else e\<lparr>secureStore := (secureStore e)(TOKEN_KEY \<mapsto> token)\<rparr>)"

definition removeAuthToken :: "env \<Rightarrow> env" where
  "removeAuthToken e =
    (if platformOS e = ''web'' then e\<lparr>asyncStorage := (asyncStorage e)(TOKEN_KEY := None)\<rparr>
     else e\<lparr>secureStore := (secureStore e)(TOKEN_KEY := None)\<rparr>)"

text \<open>The request interceptor: a truthy stored token becomes the bearer header.\<close>

definition request_interceptor :: "request \<Rightarrow> env \<Rightarrow> request" where
  "request_interceptor config e =
    (case getAuthToken e of
       None \<Rightarrow> config
     | Some token \<Rightarrow>
         if token \<noteq> [] then config\<lparr>authorization := Some (''Bearer '' @ token)\<rparr> else config)"

text \<open>The response interceptor's error branch: evict the token on 401, then reject again.\<close>

definition response_interceptor :: "js_error \<Rightarrow> env \<Rightarrow> env" where
  "response_interceptor err e = (if error_status err = Some 401 then removeAuthToken e else e)"

text \<open>
  One call through the \<open>axios\<close> instance: the request interceptor, the dispatch, the default
  status validation (2xx resolves, everything else rejects) and the response interceptor.
  When the network has no answer left the request fails without a response.
\<close>

definition next_outcome :: "env \<Rightarrow> outcome" where
  "next_outcome e = (case network e of [] \<Rightarrow> NoReply | out # rest \<Rightarrow> out)"

definition resolves :: "outcome \<Rightarrow> bool" where
  "resolves out = (case out of NoReply \<Rightarrow> False | Reply r \<Rightarrow> 200 \<le> status r \<and> status r < 300)"

definition api_call :: "request \<Rightarrow> env \<Rightarrow> (js_error + jsval) \<times> env" where
  "api_call config e =
    (let out = next_outcome e;
         e1 = e\<lparr>network := tl (network e), sent := sent e @ [request_interceptor config e]\<rparr>
     in case out of
          NoReply \<Rightarrow> (Inl (AxiosError None), response_interceptor (AxiosError None) e1)
        | Reply r \<Rightarrow>
            if 200 \<le> status r \<and> status r < 300 then (Inr (data r), e1)
            else (Inl (AxiosError (Some r)), response_interceptor (AxiosError (Some r)) e1))"

definition new_request :: "http_method \<Rightarrow> string \<Rightarrow> request" where
  "new_request m u = \<lparr>req_method = m, url = u, params = [], body = [], authorization = None\<rparr>"

text \<open>\<open>ordersAPI\<close>, current version.\<close>

definition getOrders :: "(string \<times> jsval) list \<Rightarrow> env \<Rightarrow> (js_error + jsval) \<times> env" where
  "getOrders ps = api_call ((new_request GET ''/admin/orders'')\<lparr>params := ps\<rparr>)"

definition getOrder :: "string \<Rightarrow> env \<Rightarrow> (js_error + jsval) \<times> env" where
  "getOrder orderId = api_call (new_request GET (''/orders/'' @ orderId))"

definition updateOrderStatus :: "string \<Rightarrow> string \<Rightarrow> env \<Rightarrow> (js_error + jsval) \<times> env" where
  "updateOrderStatus orderId st =
    api_call ((new_request PUT (''/admin/orders/'' @ orderId @ ''/status''))
                \<lparr>body := [(''status'', JStr st)]\<rparr>)"

definition cancelOrder :: "string \<Rightarrow> jsval \<Rightarrow> env \<Rightarrow> (js_error + jsval) \<times> env" where
  "cancelOrder orderId reason =
    api_call ((new_request POST (''/admin/orders/'' @ orderId @ ''/cancel''))
                \<lparr>body := [(''reason'', reason)]\<rparr>)"

text \<open>\<open>ordersAPI.updateOrderStatus\<close> of the earlier version of the service, before the change to PUT.\<close>

definition updateOrderStatus_legacy ::
  "string \<Rightarrow> string \<Rightarrow> env \<Rightarrow> (js_error + jsval) \<times> env" where
  "updateOrderStatus_legacy orderId st =
    api_call ((new_request PATCH (''/admin/orders/'' @ orderId @ ''/status''))
                \<lparr>body := [(''status'', JStr st)]\<rparr>)"


section \<open>Session state (context/AuthContext.tsx, app/index.tsx)\<close>

definition logout :: "env \<Rightarrow> env" where
  "logout e = (removeAuthToken e)\<lparr>user := JNull\<rparr>"

definition isAuthenticated :: "env \<Rightarrow> bool" where
  "isAuthenticated e = truthy (user e)"

datatype screen = LoadingSpinner | Redirect string

definition Index :: "env \<Rightarrow> screen" where
  "Index e =
    (if authLoading e then LoadingSpinner
     else if isAuthenticated e then Redirect ''/orders'' else Redirect ''/login'')"


section \<open>Order detail screen (app/order/[id].tsx)\<close>

record detail_screen =
  order :: jsval
  isLoading :: bool
  isUpdating :: bool

definition show_alert :: "string \<Rightarrow> jsval \<Rightarrow> env \<Rightarrow> env" where
  "show_alert t m e = e\<lparr>alerts := alerts e @ [\<lparr>title = t, message = m\<rparr>]\<rparr>"

definition fetchOrder :: "string \<Rightarrow> detail_screen \<times> env \<Rightarrow> detail_screen \<times> env" where
  "fetchOrder orderId = (\<lambda>(d, e).
    (let d1 = d\<lparr>isLoading := True\<rparr> in
     case getOrder orderId e of
       (Inr payload, e1) \<Rightarrow> (d1\<lparr>order := payload, isLoading := False\<rparr>, e1)
     | (Inl err, e1) \<Rightarrow>
         (d1\<lparr>isLoading := False\<rparr>, show_alert ''Error'' (JStr ''Failed to load order details'') e1)))"

text \<open>
  \<open>error.response?.data?.detail || fallback\<close>, the message of the failure notice.
\<close>

definition detail_or :: "js_error \<Rightarrow> string \<Rightarrow> jsval" where
  "detail_or err fallback =
    (if truthy (error_detail err) then error_detail err else JStr fallback)"

text \<open>The text a template literal gives for \<open>statusConfig.label\<close>.\<close>

definition label_text :: "registry_value \<Rightarrow> string" where
  "label_text c = (case label_of c of None \<Rightarrow> ''undefined'' | Some l \<Rightarrow> l)"

text \<open>
  Both handlers first put up a confirmation dialog; the operator dismisses it or confirms,
  and only the confirm button's \<open>onPress\<close> does anything further.
\<close>

datatype choice = Dismiss | Confirm

definition handleUpdateStatus ::
  "string \<Rightarrow> string \<Rightarrow> choice \<Rightarrow> detail_screen \<times> env \<Rightarrow> detail_screen \<times> env" where
  "handleUpdateStatus orderId newStatus ch = (\<lambda>(d, e).
    (let statusConfig = getStatusConfig newStatus;
         e0 = show_alert ''Update Status''
                (JStr (''Change order status to \"'' @ label_text statusConfig @ ''\"?'')) e
     in case ch of
          Dismiss \<Rightarrow> (d, e0)
        | Confirm \<Rightarrow>
            (let d1 = d\<lparr>isUpdating := True\<rparr> in
             case updateOrderStatus orderId newStatus e0 of
               (Inr r, e1) \<Rightarrow>
                 (case fetchOrder orderId (d1, e1) of
                    (d2, e2) \<Rightarrow>
                      (d2\<lparr>isUpdating := False\<rparr>,
                       show_alert ''Success''
                         (JStr (''Order status updated to '' @ label_text statusConfig)) e2))
             | (Inl err, e1) \<Rightarrow>
                 (d1\<lparr>isUpdating := False\<rparr>,
                  show_alert ''Error'' (detail_or err ''Failed to update status'') e1))))"

definition handleCancelOrder ::
  "string \<Rightarrow> choice \<Rightarrow> detail_screen \<times> env \<Rightarrow> detail_screen \<times> env" where
  "handleCancelOrder orderId ch = (\<lambda>(d, e).
    (let e0 = show_alert ''Cancel Order''
                (JStr ''Are you sure you want to cancel this order? This action cannot be undone.'') e
     in case ch of
          Dismiss \<Rightarrow> (d, e0)
        | Confirm \<Rightarrow>
            (let d1 = d\<lparr>isUpdating := True\<rparr> in
             case cancelOrder orderId (JStr ''Cancelled by admin from mobile app'') e0 of
               (Inr r, e1) \<Rightarrow>
                 (case fetchOrder orderId (d1, e1) of
                    (d2, e2) \<Rightarrow>
                      (d2\<lparr>isUpdating := False\<rparr>,
                       show_alert ''Order Cancelled''
                         (JStr ''The order has been cancelled successfully.'') e2))
             | (Inl err, e1) \<Rightarrow>
                 (d1\<lparr>isUpdating := False\<rparr>,
                  show_alert ''Error'' (detail_or err ''Failed to cancel order'') e1))))"


section \<open>Order list screen (app/orders.tsx)\<close>

record list_screen =
  orders :: jsval
  listLoading :: bool
  isRefreshing :: bool
  selectedStatus :: string

text \<open>
  \<open>Array.isArray(data) ? data : data.orders || []\<close>: the conditional binds loosest, so the
  \<open>||\<close> belongs to the else branch. The member access throws on \<open>null\<close> and \<open>undefined\<close>.
\<close>

definition decode_orders :: "jsval \<Rightarrow> js_error + jsval" where
  "decode_orders payload =
    (if isArray payload then Inr payload
     else case member payload ''orders'' of
            Inl err \<Rightarrow> Inl err
          | Inr v \<Rightarrow> Inr (if truthy v then v else JArr []))"

text \<open>The \<open>catch\<close> and \<open>finally\<close> blocks of \<open>fetchOrders\<close>.\<close>

definition fetchOrders_catch :: "js_error \<Rightarrow> env \<Rightarrow> env" where
  "fetchOrders_catch err e =
    (if error_status err = Some 401
     then logout (show_alert ''Session Expired'' (JStr ''Please login again'') e)
     else e)"

definition fetchOrders_finally :: "list_screen \<Rightarrow> list_screen" where
  "fetchOrders_finally l = l\<lparr>listLoading := False, isRefreshing := False\<rparr>"

definition fetchOrders :: "bool \<Rightarrow> list_screen \<times> env \<Rightarrow> list_screen \<times> env" where
  "fetchOrders showLoader = (\<lambda>(l, e).
    (let l1 = (if showLoader then l\<lparr>listLoading := True\<rparr> else l);
         ps = [(''limit'', JNum 100)] @
              (if selectedStatus l \<noteq> ''all'' then [(''status'', JStr (selectedStatus l))] else [])
     in case getOrders ps e of
          (Inr payload, e1) \<Rightarrow>
            (case decode_orders payload of
               Inr v \<Rightarrow> (fetchOrders_finally (l1\<lparr>orders := v\<rparr>), e1)
             | Inl err \<Rightarrow> (fetchOrders_finally l1, fetchOrders_catch err e1))
        | (Inl err, e1) \<Rightarrow> (fetchOrders_finally l1, fetchOrders_catch err e1)))"

section \<open>Observing a run\<close>

text \<open>The error a request that does not resolve rejects with.\<close>

definition rejection :: "outcome \<Rightarrow> js_error" where
  "rejection out = (case out of NoReply \<Rightarrow> AxiosError None | Reply r \<Rightarrow> AxiosError (Some r))"

text \<open>
  The requests dispatched between two states of the environment, each as HTTP verb, path and
  body.
\<close>

definition issued :: "env \<Rightarrow> env \<Rightarrow> (http_method \<times> string \<times> (string \<times> jsval) list) list" where
  "issued e e' = map (\<lambda>q. (req_method q, url q, body q)) (drop (length (sent e)) (sent e'))"


section \<open>A session to run the screens in\<close>

text \<open>
  A logged-in operator on a native device: the token is in the secure store and the user
  object is set; the network will give the listed answers. Order 42 is the order on the
  detail screen, and the list screen shows it under the \<open>paid\<close> tab.
\<close>

definition session_env :: "outcome list \<Rightarrow> env" where
  "session_env outs =
    \<lparr>platformOS = ''android'', asyncStorage = Map.empty,
     secureStore = [TOKEN_KEY \<mapsto> ''t0''], network = outs, sent = [], alerts = [],
     user = JObj [(''id'', JStr ''u1''), (''email'', JStr ''admin@dribble.com''), (''role'', JStr ''admin'')],
     authLoading = False\<rparr>"

definition order_42 :: "string \<Rightarrow> jsval" where
  "order_42 st = JObj [(''id'', JStr ''42''), (''order_number'', JStr ''DRB-42''), (''status'', JStr st)]"

definition detail_42 :: detail_screen where
  "detail_42 = \<lparr>order = order_42 ''pending'', isLoading = False, isUpdating = False\<rparr>"

definition list_paid :: list_screen where
  "list_paid = \<lparr>orders = JArr [order_42 ''paid''], listLoading = False, isRefreshing = False,
     selectedStatus = ''paid''\<rparr>"

text \<open>
  The body of a 422 answer as a schema-validating backend writes it: \<open>detail\<close> is a list of
  objects, one per rejected field, not a text.
\<close>

definition validation_errors :: jsval where
  "validation_errors =
    JArr [JObj [(''loc'', JArr [JStr ''body'', JStr ''status'']),
                (''msg'', JStr ''value is not a valid enumeration member''),
                (''type'', JStr ''type_error.enum'')]]"

definition answer_422 :: outcome where
  "answer_422 = Reply (Response 422 (JObj [(''detail'', validation_errors)]))"


section \<open>Properties of the transition resolver\<close>

lemma indexOf_from_absent: "x \<notin> set xs \<Longrightarrow> indexOf_from xs x i = -1"
  by (induction xs arbitrary: i) auto

lemma getNextStatus_table:
  "getNextStatus s =
    (if s = ''pending'' then Some ''confirmed''
     else if s = ''payment_pending'' then Some ''paid''
     else if s = ''paid'' then Some ''confirmed''
     else if s = ''confirmed'' then Some ''processing''
     else if s = ''processing'' then Some ''shipped''
     else if s = ''shipped'' then Some ''delivered''
     else None)"
  by (simp add: getNextStatus_def indexOf_def STATUS_FLOW_def Let_def)

lemma getNextStatus_absent: "s \<notin> set STATUS_FLOW \<Longrightarrow> getNextStatus s = None"
  by (simp add: getNextStatus_def indexOf_def indexOf_from_absent)

text \<open>
  Claim C1. The resolver gives \<open>confirmed\<close> for \<open>pending\<close> and for \<open>paid\<close>, nothing for
  \<open>delivered\<close> and for \<open>cancelled\<close>, and \<open>processing\<close> for \<open>confirmed\<close>.
\<close>

theorem getNextStatus_examples:
  "getNextStatus ''pending'' = Some ''confirmed'' \<and>
   getNextStatus ''paid'' = Some ''confirmed'' \<and>
   getNextStatus ''delivered'' = None \<and>
   getNextStatus ''cancelled'' = None \<and>
   getNextStatus ''confirmed'' = Some ''processing''"
  by (simp add: getNextStatus_def indexOf_def STATUS_FLOW_def)

text \<open>
  Claim C2. A status that is not in the forward ordering, or that is its last element
  \<open>delivered\<close>, has no next status; every element of the ordering other than \<open>pending\<close> and
  \<open>paid\<close> that has a successor advances to that successor: \<open>payment_pending\<close> to \<open>paid\<close>,
  \<open>confirmed\<close> to \<open>processing\<close>, \<open>processing\<close> to \<open>shipped\<close>, \<open>shipped\<close> to \<open>delivered\<close>.
\<close>

theorem getNextStatus_sequence:
  "(current \<notin> set STATUS_FLOW \<or> current = last STATUS_FLOW \<longrightarrow> getNextStatus current = None) \<and>
   last STATUS_FLOW = ''delivered'' \<and>
   (\<forall>i < length STATUS_FLOW - 1.
      STATUS_FLOW ! i \<noteq> ''pending'' \<and> STATUS_FLOW ! i \<noteq> ''paid'' \<longrightarrow>
      getNextStatus (STATUS_FLOW ! i) = Some (STATUS_FLOW ! (i + 1))) \<and>
   getNextStatus ''payment_pending'' = Some ''paid'' \<and>
   getNextStatus ''confirmed'' = Some ''processing'' \<and>
   getNextStatus ''processing'' = Some ''shipped'' \<and>
   getNextStatus ''shipped'' = Some ''delivered''"
proof -
  have absent:
    "current \<notin> set STATUS_FLOW \<or> current = last STATUS_FLOW \<longrightarrow> getNextStatus current = None"
    by (auto simp add: getNextStatus_table STATUS_FLOW_def)
  have step: "\<forall>i < length STATUS_FLOW - 1.
      STATUS_FLOW ! i \<noteq> ''pending'' \<and> STATUS_FLOW ! i \<noteq> ''paid'' \<longrightarrow>
      getNextStatus (STATUS_FLOW ! i) = Some (STATUS_FLOW ! (i + 1))"
  proof (intro allI impI)
    fix i assume "i < length STATUS_FLOW - 1"
      and other: "STATUS_FLOW ! i \<noteq> ''pending'' \<and> STATUS_FLOW ! i \<noteq> ''paid''"
    then have "i \<in> {0, 1, 2, 3, 4, 5}" by (auto simp add: STATUS_FLOW_def)
    with other show "getNextStatus (STATUS_FLOW ! i) = Some (STATUS_FLOW ! (i + 1))"
      by (auto simp add: getNextStatus_table STATUS_FLOW_def)
  qed
  show ?thesis using absent step by (simp add: getNextStatus_table) (simp add: STATUS_FLOW_def)
qed

theorem getNextStatus_sequence_witness:
  "getNextStatus ''refunded'' = None \<and> getNextStatus ''delivered'' = None \<and>
   getNextStatus (STATUS_FLOW ! 3) = Some (STATUS_FLOW ! 4)"
  using getNextStatus_sequence [of "''refunded''"] getNextStatus_sequence [of "''delivered''"]
  by (simp add: STATUS_FLOW_def)

text \<open>
  Claim C10. The resolver never answers \<open>pending\<close>, \<open>payment_pending\<close> or \<open>cancelled\<close>, and from
  a status of the forward ordering it only answers a status that stands later in the
  ordering.
\<close>

theorem getNextStatus_forward:
  "getNextStatus s \<notin> {Some ''pending'', Some ''payment_pending'', Some ''cancelled''} \<and>
   (s \<in> set STATUS_FLOW \<and> getNextStatus s = Some t \<longrightarrow>
      t \<in> set STATUS_FLOW \<and> indexOf STATUS_FLOW s < indexOf STATUS_FLOW t)"
  by (auto simp add: getNextStatus_table indexOf_def STATUS_FLOW_def)

theorem getNextStatus_forward_witness:
  "getNextStatus ''shipped'' = Some ''delivered'' \<and>
   indexOf STATUS_FLOW ''shipped'' < indexOf STATUS_FLOW ''delivered''"
  using getNextStatus_forward [of "''shipped''" "''delivered''"]
  by (simp add: getNextStatus_table STATUS_FLOW_def)


section \<open>Properties of the action bar\<close>

text \<open>
  Claim C3. Whatever the \<open>isUpdating\<close> flag, the rendered action bar holds a cancel control
  exactly when the status is none of \<open>cancelled\<close>, \<open>delivered\<close>, \<open>shipped\<close>: it does for
  \<open>pending\<close>, \<open>paid\<close> and \<open>processing\<close> and does not for \<open>shipped\<close>. The rule does not follow the
  advance control: all four combinations of the two controls occur (\<open>pending\<close> has both, a
  status outside the ordering has cancel only, \<open>shipped\<close> has advance only, \<open>delivered\<close> has
  neither).
\<close>

theorem cancel_offered_iff:
  "cancelOffered s u = (s \<notin> {''cancelled'', ''delivered'', ''shipped''}) \<and>
   cancelOffered ''pending'' u \<and> cancelOffered ''paid'' u \<and> cancelOffered ''processing'' u \<and>
   \<not> cancelOffered ''shipped'' u \<and>
   (cancelOffered ''pending'' u \<and> advanceOffered ''pending'' u = [''confirmed'']) \<and>
   (cancelOffered ''refunded'' u \<and> advanceOffered ''refunded'' u = []) \<and>
   (\<not> cancelOffered ''shipped'' u \<and> advanceOffered ''shipped'' u = [''delivered'']) \<and>
   (\<not> cancelOffered ''delivered'' u \<and> advanceOffered ''delivered'' u = [])"
proof -
  have iff: "\<And>x. cancelOffered x u = (x \<notin> {''cancelled'', ''delivered'', ''shipped''})"
    by (auto simp add: cancelOffered_def actionBar_def canCancel_def Let_def split: option.splits)
  have adv: "advanceOffered ''pending'' u = [''confirmed'']" "advanceOffered ''refunded'' u = []"
    "advanceOffered ''shipped'' u = [''delivered'']" "advanceOffered ''delivered'' u = []"
    by (simp_all add: advanceOffered_def actionBar_def canCancel_def getNextStatus_table)
  show ?thesis by (simp add: iff adv)
qed


section \<open>Properties of the status registry\<close>

lemma getStatusConfig_known:
  "getStatusConfig ''pending'' =
     Config \<lparr>label = ''Pending'', color = ''#F59E0B'', bgColor = ''rgba(245, 158, 11, 0.15)''\<rparr>"
  "getStatusConfig ''payment_pending'' =
     Config \<lparr>label = ''Payment Pending'', color = ''#F97316'', bgColor = ''rgba(249, 115, 22, 0.15)''\<rparr>"
  "getStatusConfig ''paid'' =
     Config \<lparr>label = ''Paid'', color = ''#10B981'', bgColor = ''rgba(16, 185, 129, 0.15)''\<rparr>"
  "getStatusConfig ''confirmed'' =
     Config \<lparr>label = ''Confirmed'', color = ''#3B82F6'', bgColor = ''rgba(59, 130, 246, 0.15)''\<rparr>"
  "getStatusConfig ''processing'' =
     Config \<lparr>label = ''Processing'', color = ''#8B5CF6'', bgColor = ''rgba(139, 92, 246, 0.15)''\<rparr>"
  "getStatusConfig ''shipped'' =
     Config \<lparr>label = ''Shipped'', color = ''#6366F1'', bgColor = ''rgba(99, 102, 241, 0.15)''\<rparr>"
  "getStatusConfig ''delivered'' =
     Config \<lparr>label = ''Delivered'', color = ''#059669'', bgColor = ''rgba(5, 150, 105, 0.15)''\<rparr>"
  "getStatusConfig ''cancelled'' =
     Config \<lparr>label = ''Cancelled'', color = ''#EF4444'', bgColor = ''rgba(239, 68, 68, 0.15)''\<rparr>"
  by (simp_all add: getStatusConfig_def registry_get_def ORDER_STATUS_CONFIG_def colors_pending_def
      colors_paymentPending_def colors_paid_def colors_confirmed_def colors_processing_def
      colors_shipped_def colors_delivered_def colors_cancelled_def)

lemma getStatusConfig_fallback:
  "s \<notin> set known_codes \<Longrightarrow> s \<notin> set Object_prototype_keys \<Longrightarrow>
   getStatusConfig s = Config \<lparr>label = s, color = colors_textMuted, bgColor = colors_surface\<rparr>"
  by (simp add: getStatusConfig_def registry_get_def known_codes_def map_of_eq_None_iff [THEN iffD2])

text \<open>
  Claim C8, at the status \<open>constructor\<close>. It is none of the eight known codes, yet the member
  access finds \<open>Object.prototype.constructor\<close>, a truthy value, so the fallback is not taken:
  the result is that inherited function, whose \<open>label\<close> is \<open>undefined\<close> and not the input
  string.
\<close>

theorem getStatusConfig_inherited_member:
  "''constructor'' \<notin> set known_codes \<and>
   getStatusConfig ''constructor'' = Inherited ''constructor'' \<and>
   label_of (getStatusConfig ''constructor'') \<noteq> Some ''constructor''"
  by (simp add: getStatusConfig_def registry_get_def known_codes_def ORDER_STATUS_CONFIG_def
      Object_prototype_keys_def)


section \<open>Properties of the transport\<close>

lemma api_call_resolved:
  "network e = Reply r # rest \<Longrightarrow> 200 \<le> status r \<Longrightarrow> status r < 300 \<Longrightarrow>
   api_call config e =
     (Inr (data r), e\<lparr>network := rest, sent := sent e @ [request_interceptor config e]\<rparr>)"
  by (simp add: api_call_def next_outcome_def Let_def)

lemma api_call_rejected:
  "\<not> resolves (next_outcome e) \<Longrightarrow>
   \<exists>err e1. api_call config e = (Inl err, e1) \<and>
     err = (case next_outcome e of NoReply \<Rightarrow> AxiosError None | Reply r \<Rightarrow> AxiosError (Some r)) \<and>
     e1 = response_interceptor err (e\<lparr>network := tl (network e), sent := sent e @ [request_interceptor config e]\<rparr>)"
  by (auto simp add: api_call_def resolves_def Let_def split: outcome.splits)

lemma api_call_sent:
  "sent (snd (api_call config e)) = sent e @ [request_interceptor config e]"
  by (simp add: api_call_def Let_def response_interceptor_def removeAuthToken_def split: outcome.splits)

lemma api_call_alerts: "alerts (snd (api_call config e)) = alerts e"
  by (simp add: api_call_def Let_def response_interceptor_def removeAuthToken_def split: outcome.splits)

lemma api_call_user: "user (snd (api_call config e)) = user e"
  by (simp add: api_call_def Let_def response_interceptor_def removeAuthToken_def split: outcome.splits)

lemma api_call_network: "network (snd (api_call config e)) = tl (network e)"
  by (simp add: api_call_def Let_def response_interceptor_def removeAuthToken_def split: outcome.splits)

lemma getAuthToken_removeAuthToken: "getAuthToken (removeAuthToken e) = None"
  by (simp add: getAuthToken_def removeAuthToken_def)

lemma api_call_evicts:
  "network e = Reply r # rest \<Longrightarrow> status r = 401 \<Longrightarrow>
   getAuthToken (snd (api_call config e)) = None"
  by (simp add: api_call_def next_outcome_def response_interceptor_def error_status_def
      getAuthToken_def removeAuthToken_def Let_def)

lemma request_interceptor_fields:
  "req_method (request_interceptor q e) = req_method q"
  "url (request_interceptor q e) = url q"
  "body (request_interceptor q e) = body q"
  "params (request_interceptor q e) = params q"
  by (simp_all add: request_interceptor_def split: option.splits)



section \<open>Properties of the order detail screen\<close>

lemma show_alert_fields:
  "network (show_alert t m e) = network e" "sent (show_alert t m e) = sent e"
  "alerts (show_alert t m e) = alerts e @ [\<lparr>title = t, message = m\<rparr>]"
  "user (show_alert t m e) = user e"
  "next_outcome (show_alert t m e) = next_outcome e"
  by (simp_all add: show_alert_def next_outcome_def)

lemma fetchOrder_resolved:
  "network e = Reply r # rest \<Longrightarrow> 200 \<le> status r \<Longrightarrow> status r < 300 \<Longrightarrow>
   fetchOrder oid (d, e) =
     (d\<lparr>order := data r, isLoading := False\<rparr>,
      e\<lparr>network := rest,
        sent := sent e @ [request_interceptor (new_request GET (''/orders/'' @ oid)) e]\<rparr>)"
  by (simp add: fetchOrder_def getOrder_def api_call_resolved Let_def)

lemma fetchOrder_sent:
  "sent (snd (fetchOrder oid (d, e))) =
     sent e @ [request_interceptor (new_request GET (''/orders/'' @ oid)) e]"
  using api_call_sent [of "new_request GET (''/orders/'' @ oid)" e]
  by (auto simp add: fetchOrder_def getOrder_def show_alert_fields Let_def split: prod.splits sum.splits)

lemma fetchOrder_rejected:
  "\<not> resolves (next_outcome e) \<Longrightarrow>
   fst (fetchOrder oid (d, e)) = d\<lparr>isLoading := False\<rparr>"
  using api_call_rejected [of e "new_request GET (''/orders/'' @ oid)"]
  by (auto simp add: fetchOrder_def getOrder_def Let_def split: prod.splits sum.splits)

lemma issued_self: "issued e e = []"
  by (simp add: issued_def)

lemma issued_append:
  "sent e' = sent e @ qs \<Longrightarrow> issued e e' = map (\<lambda>q. (req_method q, url q, body q)) qs"
  by (simp add: issued_def)

lemma api_call_rejected_eq:
  "\<not> resolves (next_outcome e) \<Longrightarrow>
   api_call config e =
     (Inl (rejection (next_outcome e)),
      response_interceptor (rejection (next_outcome e))
        (e\<lparr>network := tl (network e), sent := sent e @ [request_interceptor config e]\<rparr>))"
  by (auto simp add: api_call_def resolves_def rejection_def Let_def split: outcome.splits)

lemma response_interceptor_fields:
  "sent (response_interceptor err e) = sent e"
  "alerts (response_interceptor err e) = alerts e"
  "network (response_interceptor err e) = network e"
  "user (response_interceptor err e) = user e"
  by (simp_all add: response_interceptor_def removeAuthToken_def)

lemma request_interceptor_show_alert:
  "request_interceptor q (show_alert t m e) = request_interceptor q e"
  by (simp add: request_interceptor_def show_alert_def getAuthToken_def)

lemma handleUpdateStatus_resolved:
  assumes "network e = Reply r1 # rest" "200 \<le> status r1" "status r1 < 300"
  shows "handleUpdateStatus oid st Confirm (d, e) =
    (let after = fetchOrder oid (d\<lparr>isUpdating := True\<rparr>,
        (show_alert ''Update Status''
           (JStr (''Change order status to \"'' @ label_text (getStatusConfig st) @ ''\"?'')) e)
         \<lparr>network := rest,
           sent := sent e @ [request_interceptor
             ((new_request PUT (''/admin/orders/'' @ oid @ ''/status''))\<lparr>body := [(''status'', JStr st)]\<rparr>) e]\<rparr>)
     in ((fst after)\<lparr>isUpdating := False\<rparr>,
         show_alert ''Success'' (JStr (''Order status updated to '' @ label_text (getStatusConfig st)))
           (snd after)))"
  using assms
  by (simp add: handleUpdateStatus_def updateOrderStatus_def Let_def api_call_resolved
      show_alert_fields request_interceptor_show_alert split: prod.splits)

lemma handleCancelOrder_resolved:
  assumes "network e = Reply r1 # rest" "200 \<le> status r1" "status r1 < 300"
  shows "handleCancelOrder oid Confirm (d, e) =
    (let after = fetchOrder oid (d\<lparr>isUpdating := True\<rparr>,
        (show_alert ''Cancel Order''
           (JStr ''Are you sure you want to cancel this order? This action cannot be undone.'') e)
         \<lparr>network := rest,
           sent := sent e @ [request_interceptor
             ((new_request POST (''/admin/orders/'' @ oid @ ''/cancel''))
                \<lparr>body := [(''reason'', JStr ''Cancelled by admin from mobile app'')]\<rparr>) e]\<rparr>)
     in ((fst after)\<lparr>isUpdating := False\<rparr>,
         show_alert ''Order Cancelled'' (JStr ''The order has been cancelled successfully.'')
           (snd after)))"
  using assms
  by (simp add: handleCancelOrder_def cancelOrder_def Let_def api_call_resolved
      show_alert_fields request_interceptor_show_alert split: prod.splits)

lemma handleUpdateStatus_rejected:
  assumes "\<not> resolves (next_outcome e)"
  shows "handleUpdateStatus oid st Confirm (d, e) =
    (d\<lparr>isUpdating := False\<rparr>,
     show_alert ''Error'' (detail_or (rejection (next_outcome e)) ''Failed to update status'')
       (response_interceptor (rejection (next_outcome e))
         ((show_alert ''Update Status''
            (JStr (''Change order status to \"'' @ label_text (getStatusConfig st) @ ''\"?'')) e)
          \<lparr>network := tl (network e),
            sent := sent e @ [request_interceptor
              ((new_request PUT (''/admin/orders/'' @ oid @ ''/status''))\<lparr>body := [(''status'', JStr st)]\<rparr>) e]\<rparr>)))"
  using assms
  by (simp add: handleUpdateStatus_def updateOrderStatus_def Let_def api_call_rejected_eq
      show_alert_fields request_interceptor_show_alert)

lemma handleCancelOrder_rejected:
  assumes "\<not> resolves (next_outcome e)"
  shows "handleCancelOrder oid Confirm (d, e) =
    (d\<lparr>isUpdating := False\<rparr>,
     show_alert ''Error'' (detail_or (rejection (next_outcome e)) ''Failed to cancel order'')
       (response_interceptor (rejection (next_outcome e))
         ((show_alert ''Cancel Order''
            (JStr ''Are you sure you want to cancel this order? This action cannot be undone.'') e)
          \<lparr>network := tl (network e),
            sent := sent e @ [request_interceptor
              ((new_request POST (''/admin/orders/'' @ oid @ ''/cancel''))
                \<lparr>body := [(''reason'', JStr ''Cancelled by admin from mobile app'')]\<rparr>) e]\<rparr>)))"
  using assms
  by (simp add: handleCancelOrder_def cancelOrder_def Let_def api_call_rejected_eq
      show_alert_fields request_interceptor_show_alert)

lemma issued_fetchOrder:
  "length (sent e0) \<le> length (sent e) \<Longrightarrow>
   issued e0 (snd (fetchOrder oid (d, e))) = issued e0 e @ [(GET, ''/orders/'' @ oid, [])]"
  by (simp add: issued_def fetchOrder_sent request_interceptor_fields new_request_def)

lemma issued_show_alert: "issued e0 (show_alert t m e) = issued e0 e"
  by (simp add: issued_def show_alert_fields)

lemma issued_response_interceptor: "issued e0 (response_interceptor err e) = issued e0 e"
  by (simp add: issued_def response_interceptor_fields)

lemma issued_dispatch:
  "issued e (x\<lparr>network := n, sent := sent e @ [request_interceptor q e]\<rparr>) =
     [(req_method q, url q, body q)]"
  by (simp add: issued_def request_interceptor_fields)

lemma refetch_like:
  assumes "network e = Reply r1 # rest" and "200 \<le> status r1" and "status r1 < 300"
  shows
    "issued e (snd (handleUpdateStatus oid st Confirm (d, e))) =
       [(PUT, ''/admin/orders/'' @ oid @ ''/status'', [(''status'', JStr st)]),
        (GET, ''/orders/'' @ oid, [])] \<and>
     issued e (snd (handleCancelOrder oid Confirm (d, e))) =
       [(POST, ''/admin/orders/'' @ oid @ ''/cancel'',
           [(''reason'', JStr ''Cancelled by admin from mobile app'')]),
        (GET, ''/orders/'' @ oid, [])]"
  by (simp add: handleUpdateStatus_resolved [OF assms] handleCancelOrder_resolved [OF assms]
      Let_def issued_show_alert issued_fetchOrder issued_dispatch new_request_def)

text \<open>
  Claim C4. When the advance or the cancel call resolves, the handler at once dispatches the
  fetch of that order and nothing else; and when that fetch resolves too, the screen shows
  exactly its payload, with the loading and updating flags cleared, whatever the screen held
  before the mutation.
\<close>

theorem refetch_after_mutation:
  assumes "network e = Reply r1 # rest" and "200 \<le> status r1" and "status r1 < 300"
  shows
    "issued e (snd (handleUpdateStatus oid st Confirm (d, e))) =
       [(PUT, ''/admin/orders/'' @ oid @ ''/status'', [(''status'', JStr st)]),
        (GET, ''/orders/'' @ oid, [])] \<and>
     issued e (snd (handleCancelOrder oid Confirm (d, e))) =
       [(POST, ''/admin/orders/'' @ oid @ ''/cancel'',
           [(''reason'', JStr ''Cancelled by admin from mobile app'')]),
        (GET, ''/orders/'' @ oid, [])] \<and>
     (\<forall>r2 rest'. rest = Reply r2 # rest' \<and> 200 \<le> status r2 \<and> status r2 < 300 \<longrightarrow>
        fst (handleUpdateStatus oid st Confirm (d, e)) =
          \<lparr>order = data r2, isLoading = False, isUpdating = False\<rparr> \<and>
        fst (handleCancelOrder oid Confirm (d, e)) =
          \<lparr>order = data r2, isLoading = False, isUpdating = False\<rparr>)"
proof (intro conjI allI impI)
  show "issued e (snd (handleUpdateStatus oid st Confirm (d, e))) =
       [(PUT, ''/admin/orders/'' @ oid @ ''/status'', [(''status'', JStr st)]),
        (GET, ''/orders/'' @ oid, [])]"
    by (simp add: handleUpdateStatus_resolved [OF assms] Let_def issued_show_alert
        issued_fetchOrder issued_dispatch new_request_def)
  show "issued e (snd (handleCancelOrder oid Confirm (d, e))) =
       [(POST, ''/admin/orders/'' @ oid @ ''/cancel'',
           [(''reason'', JStr ''Cancelled by admin from mobile app'')]),
        (GET, ''/orders/'' @ oid, [])]"
    by (simp add: handleCancelOrder_resolved [OF assms] Let_def issued_show_alert
        issued_fetchOrder issued_dispatch new_request_def)
next
  fix r2 rest'
  assume ok: "rest = Reply r2 # rest' \<and> 200 \<le> status r2 \<and> status r2 < 300"
  show "fst (handleUpdateStatus oid st Confirm (d, e)) =
          \<lparr>order = data r2, isLoading = False, isUpdating = False\<rparr>"
    using ok by (simp add: handleUpdateStatus_resolved [OF assms] fetchOrder_resolved Let_def)
  show "fst (handleCancelOrder oid Confirm (d, e)) =
          \<lparr>order = data r2, isLoading = False, isUpdating = False\<rparr>"
    using ok by (simp add: handleCancelOrder_resolved [OF assms] fetchOrder_resolved Let_def)
qed

theorem refetch_after_mutation_witness:
  "fst (handleUpdateStatus ''42'' ''confirmed'' Confirm
      (detail_42,
       session_env [Reply (Response 200 (order_42 ''confirmed'')),
                    Reply (Response 200 (order_42 ''confirmed''))])) =
     \<lparr>order = order_42 ''confirmed'', isLoading = False, isUpdating = False\<rparr>"
  using refetch_after_mutation
    [of "session_env [Reply (Response 200 (order_42 ''confirmed'')),
                      Reply (Response 200 (order_42 ''confirmed''))]"
        "Response 200 (order_42 ''confirmed'')"
        "[Reply (Response 200 (order_42 ''confirmed''))]" "''42''" "''confirmed''" detail_42]
  by (simp add: session_env_def)

text \<open>
  The hypothesis on the fetch cannot be dropped: here the mutation resolves and the fetch
  after it is answered 500; \<open>fetchOrder\<close> catches the failure, so the screen goes on showing
  the order as it was before the mutation.
\<close>

theorem refetch_failure_keeps_stale_order:
  "resolves (next_outcome (session_env
      [Reply (Response 200 (order_42 ''confirmed'')), Reply (Response 500 JNull)])) \<and>
   order (fst (handleUpdateStatus ''42'' ''confirmed'' Confirm
      (detail_42,
       session_env [Reply (Response 200 (order_42 ''confirmed'')), Reply (Response 500 JNull)]))) =
     order_42 ''pending'' \<and>
   order (fst (handleCancelOrder ''42'' Confirm
      (detail_42,
       session_env [Reply (Response 200 (order_42 ''cancelled'')), Reply (Response 500 JNull)]))) =
     order_42 ''pending''"
proof -
  have n: "network (session_env [Reply (Response 200 p), Reply (Response 500 JNull)]) =
      Reply (Response 200 p) # [Reply (Response 500 JNull)]" for p
    by (simp add: session_env_def)
  have r: "\<not> resolves (next_outcome (x\<lparr>network := [Reply (Response 500 JNull)], sent := s\<rparr>))" for x :: env and s
    by (simp add: resolves_def next_outcome_def)
  show ?thesis
    by (simp add: handleUpdateStatus_resolved [OF n] handleCancelOrder_resolved [OF n]
        fetchOrder_rejected [OF r] Let_def detail_42_def)
       (simp add: resolves_def next_outcome_def session_env_def)
qed

text \<open>
  What a mutation that does not resolve (any answer outside 2xx, or none) leaves behind: the
  screen as it was, with the updating flag cleared, and the mutation as the only request
  dispatched, so nothing is fetched and nothing is retried.
\<close>

lemma rejected_mutation_screen:
  assumes "\<not> resolves (next_outcome e)"
  shows
    "fst (handleUpdateStatus oid st Confirm (d, e)) = d\<lparr>isUpdating := False\<rparr> \<and>
     fst (handleCancelOrder oid Confirm (d, e)) = d\<lparr>isUpdating := False\<rparr> \<and>
     issued e (snd (handleUpdateStatus oid st Confirm (d, e))) =
       [(PUT, ''/admin/orders/'' @ oid @ ''/status'', [(''status'', JStr st)])] \<and>
     issued e (snd (handleCancelOrder oid Confirm (d, e))) =
       [(POST, ''/admin/orders/'' @ oid @ ''/cancel'',
           [(''reason'', JStr ''Cancelled by admin from mobile app'')])]"
  by (simp add: handleUpdateStatus_rejected [OF assms] handleCancelOrder_rejected [OF assms]
      issued_show_alert issued_response_interceptor issued_dispatch new_request_def)

text \<open>
  The notices of such a mutation, read off the answer itself. After the confirmation dialog
  exactly one notice follows, titled \<open>Error\<close>. When the body of the answer is an object whose
  \<open>detail\<close> is a non-empty text, the message is that text.
\<close>

lemma rejected_mutation_text_notice:
  assumes "next_outcome e = Reply (Response code (JObj fs))" and "\<not> (200 \<le> code \<and> code < 300)"
    and "map_of fs ''detail'' = Some (JStr t)" and "t \<noteq> []"
  shows
    "drop (Suc (length (alerts e))) (alerts (snd (handleUpdateStatus oid st Confirm (d, e)))) =
       [\<lparr>title = ''Error'', message = JStr t\<rparr>] \<and>
     drop (Suc (length (alerts e))) (alerts (snd (handleCancelOrder oid Confirm (d, e)))) =
       [\<lparr>title = ''Error'', message = JStr t\<rparr>]"
proof -
  have r: "\<not> resolves (next_outcome e)"
    using assms by (simp add: resolves_def)
  show ?thesis
    using assms
    by (simp add: handleUpdateStatus_rejected [OF r] handleCancelOrder_rejected [OF r]
        show_alert_fields response_interceptor_fields detail_or_def error_detail_def
        rejection_def opt_member_def)
qed

text \<open>
  When there is no answer, when the body is not an object, when the object has no \<open>detail\<close>,
  or when its \<open>detail\<close> is \<open>null\<close>, \<open>false\<close>, zero or the empty text, the message is the
  handler's generic text.
\<close>

lemma rejected_mutation_generic_notice:
  assumes "\<not> resolves (next_outcome e)"
    and "next_outcome e = NoReply \<or>
         (\<exists>code. next_outcome e = Reply (Response code JNull)) \<or>
         (\<exists>code b. next_outcome e = Reply (Response code (JBool b))) \<or>
         (\<exists>code x. next_outcome e = Reply (Response code (JNum x))) \<or>
         (\<exists>code t. next_outcome e = Reply (Response code (JStr t))) \<or>
         (\<exists>code xs. next_outcome e = Reply (Response code (JArr xs))) \<or>
         (\<exists>code fs. next_outcome e = Reply (Response code (JObj fs)) \<and>
            map_of fs ''detail'' \<in>
              {None, Some JNull, Some (JBool False), Some (JNum 0), Some (JStr [])})"
  shows
    "drop (Suc (length (alerts e))) (alerts (snd (handleUpdateStatus oid st Confirm (d, e)))) =
       [\<lparr>title = ''Error'', message = JStr ''Failed to update status''\<rparr>] \<and>
     drop (Suc (length (alerts e))) (alerts (snd (handleCancelOrder oid Confirm (d, e)))) =
       [\<lparr>title = ''Error'', message = JStr ''Failed to cancel order''\<rparr>]"
proof -
  have "\<not> truthy (error_detail (rejection (next_outcome e)))"
    using assms(2)
    by (auto simp add: error_detail_def rejection_def opt_member_def)
  then show ?thesis
    by (simp add: handleUpdateStatus_rejected [OF assms(1)] handleCancelOrder_rejected [OF assms(1)]
        show_alert_fields response_interceptor_fields detail_or_def)
qed

text \<open>
  Claim C5, at a 422 answer whose \<open>detail\<close> is the list of validation errors. The screen is
  left as it was and nothing is retried, but the list is truthy, so \<open>||\<close> keeps it and the
  handler hands the list itself to the notice: its message is neither a detail text nor the
  generic message.
\<close>

theorem rejected_mutation_nontext_detail:
  "fst (handleUpdateStatus ''42'' ''confirmed'' Confirm (detail_42, session_env [answer_422])) =
     detail_42 \<and>
   drop 1 (alerts (snd (handleUpdateStatus ''42'' ''confirmed'' Confirm
      (detail_42, session_env [answer_422])))) =
     [\<lparr>title = ''Error'', message = validation_errors\<rparr>] \<and>
   drop 1 (alerts (snd (handleCancelOrder ''42'' Confirm (detail_42, session_env [answer_422])))) =
     [\<lparr>title = ''Error'', message = validation_errors\<rparr>] \<and>
   validation_errors \<noteq> JStr ''Failed to update status'' \<and>
   validation_errors \<noteq> JStr ''Failed to cancel order'' \<and>
   isArray validation_errors"
proof -
  have r: "\<not> resolves (next_outcome (session_env [answer_422]))"
    by (simp add: resolves_def next_outcome_def session_env_def answer_422_def)
  have t: "truthy validation_errors" "isArray validation_errors"
    by (simp_all add: validation_errors_def)
  have d: "error_detail (rejection (next_outcome (session_env [answer_422]))) = validation_errors"
    by (simp add: error_detail_def rejection_def next_outcome_def session_env_def answer_422_def
        opt_member_def)
  show ?thesis
    by (simp add: handleUpdateStatus_rejected [OF r] handleCancelOrder_rejected [OF r]
        show_alert_fields response_interceptor_fields detail_or_def d t)
       (simp add: validation_errors_def session_env_def detail_42_def)
qed


section \<open>Properties of the requests\<close>

text \<open>
  Claim C9. \<open>updateOrderStatus\<close> dispatches one PUT to \<open>/admin/orders/{id}/status\<close> with the
  target status in the body, and \<open>cancelOrder\<close> one POST to \<open>/admin/orders/{id}/cancel\<close> with
  the reason; the earlier version of the service used PATCH on the same path. On the detail
  screen a confirmed advance starts with that PUT and a confirmed cancel with that POST,
  followed by at most the GET of the order; a dismissed dialog dispatches nothing.
\<close>

theorem mutation_requests:
  "issued e (snd (updateOrderStatus oid st e)) =
     [(PUT, ''/admin/orders/'' @ oid @ ''/status'', [(''status'', JStr st)])] \<and>
   issued e (snd (cancelOrder oid reason e)) =
     [(POST, ''/admin/orders/'' @ oid @ ''/cancel'', [(''reason'', reason)])] \<and>
   issued e (snd (updateOrderStatus_legacy oid st e)) =
     [(PATCH, ''/admin/orders/'' @ oid @ ''/status'', [(''status'', JStr st)])] \<and>
   take 1 (issued e (snd (handleUpdateStatus oid st Confirm (d, e)))) =
     [(PUT, ''/admin/orders/'' @ oid @ ''/status'', [(''status'', JStr st)])] \<and>
   map fst (drop 1 (issued e (snd (handleUpdateStatus oid st Confirm (d, e))))) \<in> {[], [GET]} \<and>
   take 1 (issued e (snd (handleCancelOrder oid Confirm (d, e)))) =
     [(POST, ''/admin/orders/'' @ oid @ ''/cancel'',
         [(''reason'', JStr ''Cancelled by admin from mobile app'')])] \<and>
   map fst (drop 1 (issued e (snd (handleCancelOrder oid Confirm (d, e))))) \<in> {[], [GET]} \<and>
   issued e (snd (handleUpdateStatus oid st Dismiss (d, e))) = [] \<and>
   issued e (snd (handleCancelOrder oid Dismiss (d, e))) = []"
proof -
  have api: "issued e (snd (api_call q e)) = [(req_method q, url q, body q)]" for q
    by (simp add: issued_def api_call_sent request_interceptor_fields)
  have direct:
    "issued e (snd (updateOrderStatus oid st e)) =
       [(PUT, ''/admin/orders/'' @ oid @ ''/status'', [(''status'', JStr st)])]"
    "issued e (snd (cancelOrder oid reason e)) =
       [(POST, ''/admin/orders/'' @ oid @ ''/cancel'', [(''reason'', reason)])]"
    "issued e (snd (updateOrderStatus_legacy oid st e)) =
       [(PATCH, ''/admin/orders/'' @ oid @ ''/status'', [(''status'', JStr st)])]"
    by (simp_all add: updateOrderStatus_def cancelOrder_def updateOrderStatus_legacy_def api
        new_request_def)
  have dismiss:
    "issued e (snd (handleUpdateStatus oid st Dismiss (d, e))) = []"
    "issued e (snd (handleCancelOrder oid Dismiss (d, e))) = []"
    by (simp_all add: handleUpdateStatus_def handleCancelOrder_def Let_def issued_show_alert
        issued_self)
  have confirm:
    "take 1 (issued e (snd (handleUpdateStatus oid st Confirm (d, e)))) =
       [(PUT, ''/admin/orders/'' @ oid @ ''/status'', [(''status'', JStr st)])] \<and>
     map fst (drop 1 (issued e (snd (handleUpdateStatus oid st Confirm (d, e))))) \<in> {[], [GET]} \<and>
     take 1 (issued e (snd (handleCancelOrder oid Confirm (d, e)))) =
       [(POST, ''/admin/orders/'' @ oid @ ''/cancel'',
           [(''reason'', JStr ''Cancelled by admin from mobile app'')])] \<and>
     map fst (drop 1 (issued e (snd (handleCancelOrder oid Confirm (d, e))))) \<in> {[], [GET]}"
  proof (cases "resolves (next_outcome e)")
    case True
    then obtain r1 rest where n: "network e = Reply r1 # rest" "200 \<le> status r1" "status r1 < 300"
      by (auto simp add: resolves_def next_outcome_def split: list.splits outcome.splits)
    show ?thesis using refetch_like [OF n] by simp
  next
    case False
    show ?thesis
      by (simp add: handleUpdateStatus_rejected [OF False] handleCancelOrder_rejected [OF False]
          issued_show_alert issued_response_interceptor issued_dispatch new_request_def)
  qed
  show ?thesis using direct dismiss confirm by simp
qed


section \<open>Properties of the order list screen\<close>

lemma decode_orders_array: "decode_orders (JArr xs) = Inr (JArr xs)"
  by (simp add: decode_orders_def)

lemma decode_orders_wrapped:
  "map_of fs ''orders'' = Some (JArr xs) \<Longrightarrow> decode_orders (JObj fs) = Inr (JArr xs)"
  by (simp add: decode_orders_def)

lemma decode_orders_other:
  "\<not> isArray payload \<Longrightarrow> payload \<noteq> JNull \<Longrightarrow> payload \<noteq> JUndefined \<Longrightarrow>
   \<not> truthy (opt_member payload ''orders'') \<Longrightarrow> decode_orders payload = Inr (JArr [])"
  by (cases payload) (simp_all add: decode_orders_def opt_member_def)

lemma fetchOrders_resolved:
  "network e = Reply r # rest \<Longrightarrow> 200 \<le> status r \<Longrightarrow> status r < 300 \<Longrightarrow>
   decode_orders (data r) = Inr v \<Longrightarrow>
   orders (fst (fetchOrders showLoader (l, e))) = v \<and>
   alerts (snd (fetchOrders showLoader (l, e))) = alerts e"
  by (simp add: fetchOrders_def getOrders_def api_call_resolved Let_def fetchOrders_finally_def)

lemma fetchOrders_same_list:
  "network e = Reply (Response 200 (JArr xs)) # rest \<Longrightarrow>
   network e' = Reply (Response 200 (JObj [(''orders'', JArr xs)])) # rest' \<Longrightarrow>
   orders (fst (fetchOrders b (l, e))) = orders (fst (fetchOrders b' (l', e')))"
  by (simp add: fetchOrders_resolved [where v = "JArr xs"] decode_orders_def)

text \<open>
  Claim C6, at the response body \<open>null\<close>. It is neither an array nor an object, and reading
  \<open>orders\<close> off it throws; the \<open>catch\<close> block shows nothing, and the list goes on showing the
  orders it held before instead of becoming empty. An object whose \<open>orders\<close> is a truthy
  value other than an array is not turned into the empty list either.
\<close>

theorem fetchOrders_null_payload:
  "decode_orders JNull = Inl TypeError \<and>
   orders (fst (fetchOrders True (list_paid, session_env [Reply (Response 200 JNull)]))) =
     JArr [order_42 ''paid''] \<and>
   orders (fst (fetchOrders True (list_paid, session_env [Reply (Response 200 JNull)]))) \<noteq> JArr [] \<and>
   alerts (snd (fetchOrders True (list_paid, session_env [Reply (Response 200 JNull)]))) = [] \<and>
   orders (fst (fetchOrders True
     (list_paid, session_env [Reply (Response 200 (JObj [(''orders'', JStr ''none'')]))]))) =
     JStr ''none''"
  by (simp add: fetchOrders_def getOrders_def api_call_def next_outcome_def decode_orders_def
      session_env_def list_paid_def fetchOrders_finally_def fetchOrders_catch_def error_status_def
      Let_def)


section \<open>Properties of the session\<close>

text \<open>
  Claim C7, at a 401 answer to the detail screen's fetch (or mutation). The response
  interceptor deletes the stored token, but the user object of the session stays set, so
  \<open>isAuthenticated\<close> still holds and the index screen still redirects to the orders. The list
  screen's \<open>fetchOrders\<close> calls \<open>logout\<close> on the same answer, after which the index screen
  redirects to the login.
\<close>

theorem unauthorized_detail_fetch_keeps_session:
  "getAuthToken (session_env [Reply (Response 401 (JObj [(''detail'', JStr ''Invalid token'')]))]) =
     Some ''t0'' \<and>
   getAuthToken (snd (fetchOrder ''42''
     (detail_42, session_env [Reply (Response 401 (JObj [(''detail'', JStr ''Invalid token'')]))]))) =
     None \<and>
   isAuthenticated (snd (fetchOrder ''42''
     (detail_42, session_env [Reply (Response 401 (JObj [(''detail'', JStr ''Invalid token'')]))]))) \<and>
   Index (snd (fetchOrder ''42''
     (detail_42, session_env [Reply (Response 401 (JObj [(''detail'', JStr ''Invalid token'')]))]))) =
     Redirect ''/orders'' \<and>
   isAuthenticated (snd (handleUpdateStatus ''42'' ''confirmed'' Confirm
     (detail_42, session_env [Reply (Response 401 (JObj [(''detail'', JStr ''Invalid token'')]))]))) \<and>
   \<not> isAuthenticated (snd (fetchOrders True
     (list_paid, session_env [Reply (Response 401 (JObj [(''detail'', JStr ''Invalid token'')]))]))) \<and>
   Index (snd (fetchOrders True
     (list_paid, session_env [Reply (Response 401 (JObj [(''detail'', JStr ''Invalid token'')]))]))) =
     Redirect ''/login''"
  by (simp add: fetchOrder_def getOrder_def fetchOrders_def getOrders_def handleUpdateStatus_def
      updateOrderStatus_def api_call_def next_outcome_def response_interceptor_def
      error_status_def removeAuthToken_def getAuthToken_def isAuthenticated_def Index_def
      session_env_def show_alert_def fetchOrders_catch_def logout_def TOKEN_KEY_def Let_def)

end
